theory Spec2Isabelle
  imports Main "HOL-Library.Word"
begin

section \<open>C types and the constants of the engine header\<close>

text \<open>
  \<^verbatim>\<open>lmdb++.h\<close> is a thin C++11 layer over the C interface of LMDB. The status codes are
  C \<^verbatim>\<open>int\<close>s, flags and counts are \<^verbatim>\<open>unsigned int\<close>s, sizes are \<^verbatim>\<open>std::size_t\<close>; they are
  modelled as machine words of the usual widths (an \<^verbatim>\<open>int\<close> is a 32-bit word read in two's
  complement, by \<^const>\<open>sint\<close>). No arithmetic is done on any of them by the wrapper, they are
  only compared and passed on.

  Native handles (\<^verbatim>\<open>MDB_env*\<close>, \<^verbatim>\<open>MDB_txn*\<close>) and the out-parameters that receive them
  (\<^verbatim>\<open>MDB_env**\<close>, \<^verbatim>\<open>MDB_txn**\<close>) are opaque addresses; the wrapper never dereferences them.
  A \<^verbatim>\<open>const char*\<close> is the C string it points to, a \<^typ>\<open>string\<close> without NUL characters.
\<close>

type_synonym c_int = "32 word"
type_synonym c_uint = "32 word"
type_synonym size_t = "64 word"
type_synonym mode = "32 word"
type_synonym MDB_dbi = "32 word"
type_synonym addr = nat

text \<open>
  Modelled from the spec: the status constants of \<^verbatim>\<open>lmdb.h\<close> (the engine's header,
  included by the source but not part of it): the success sentinel, the "key already
  exists" code and the "key/record not found" code. The numbers are those of the LMDB
  header; the proofs below only use that the three are pairwise distinct, which the
  \<^verbatim>\<open>switch\<close> of \<^verbatim>\<open>lmdb::error::raise\<close> needs in order to compile.
\<close>

definition MDB_SUCCESS :: c_int where
  "MDB_SUCCESS = 0"

definition MDB_KEYEXIST :: c_int where
  "MDB_KEYEXIST = - 30799"

definition MDB_NOTFOUND :: c_int where
  "MDB_NOTFOUND = - 30798"

section \<open>Error handling\<close>

text \<open>
  \<^verbatim>\<open>class lmdb::error : public std::runtime_error\<close> with the field \<^verbatim>\<open>const int _code\<close>, and
  its two final subclasses \<^verbatim>\<open>key_exist_error\<close> and \<^verbatim>\<open>not_found_error\<close>, which add no data
  and inherit the constructor. An exception object is its dynamic class, the string
  kept by the \<^verbatim>\<open>runtime_error\<close> base subobject, and the field \<^verbatim>\<open>_code\<close> (here
  \<open>field_code\<close>: a name cannot begin with an underscore).
\<close>

datatype error_class = Error | Key_exist_error | Not_found_error

datatype error = Exception (dynamic_class: error_class) (runtime_error_what: string) (field_code: c_int)

text \<open>The constructor \<^verbatim>\<open>error(origin, rc) : runtime_error{origin}, _code{rc}\<close>, per class.\<close>

definition error_ctor :: "string \<Rightarrow> c_int \<Rightarrow> error" where
  "error_ctor origin rc = Exception Error origin rc"

definition key_exist_error_ctor :: "string \<Rightarrow> c_int \<Rightarrow> error" where
  "key_exist_error_ctor origin rc = Exception Key_exist_error origin rc"

definition not_found_error_ctor :: "string \<Rightarrow> c_int \<Rightarrow> error" where
  "not_found_error_ctor origin rc = Exception Not_found_error origin rc"

text \<open>\<^verbatim>\<open>int code() const noexcept { return _code; }\<close>\<close>

definition code :: "error \<Rightarrow> c_int" where
  "code e = field_code e"

text \<open>\<^verbatim>\<open>const char* origin() const noexcept { return runtime_error::what(); }\<close>\<close>

definition origin :: "error \<Rightarrow> string" where
  "origin e = runtime_error_what e"

text \<open>
  \<^verbatim>\<open>[[noreturn]] static inline void raise(const char* origin, int rc)\<close>: a \<^verbatim>\<open>switch\<close> on
  \<^verbatim>\<open>rc\<close> whose three branches all throw. A thrown exception is \<open>Inl\<close>, a normal return of
  the \<^verbatim>\<open>void\<close> function would be \<open>Inr ()\<close>. The parameter \<^verbatim>\<open>origin\<close> is written \<open>orig\<close>,
  the accessor having the name.
\<close>

definition raise :: "string \<Rightarrow> c_int \<Rightarrow> error + unit" where
  "raise orig rc =
     (if rc = MDB_KEYEXIST then Inl (key_exist_error_ctor orig rc)
      else if rc = MDB_NOTFOUND then Inl (not_found_error_ctor orig rc)
      else Inl (error_ctor orig rc))"

text \<open>
  \<^verbatim>\<open>virtual const char* what() const noexcept\<close> formats into a buffer that is
  \<^verbatim>\<open>static thread_local char buffer[1024]\<close>: one buffer per thread, shared by every error
  object, and returns its address. The store is therefore part of the model: the contents
  of the buffer of each thread, as the C string it holds (empty at first, the array being
  zero-initialised), and the returned pointer names the buffer of the calling thread.
\<close>

type_synonym thread = nat
type_synonym buffers = "thread \<Rightarrow> string"

datatype char_ptr = Buffer thread

fun c_str :: "buffers \<Rightarrow> char_ptr \<Rightarrow> string" where
  "c_str bufs (Buffer t) = bufs t"

definition initial_buffers :: buffers where
  "initial_buffers = (\<lambda>t. [])"

text \<open>
  \<^verbatim>\<open>std::snprintf(buffer, n, "%s: %s", a, b)\<close>: the formatted text is \<open>a\<close>, a colon, a space
  and \<open>b\<close>; at most \<open>n - 1\<close> of its characters are stored, followed by the terminating NUL.
\<close>

definition snprintf :: "nat \<Rightarrow> string \<Rightarrow> string \<Rightarrow> string" where
  "snprintf n a b = take (n - 1) (a @ '': '' @ b)"

section \<open>The engine\<close>

text \<open>
  The functions of the C library are external. They are a parameter of the model: a record
  with one field per entry point the wrapper calls, each acting on the state of the engine
  (a type the wrapper knows nothing about). An entry point that returns \<^verbatim>\<open>int\<close> yields the
  status and the new state; \<^verbatim>\<open>mdb_env_close\<close>, \<^verbatim>\<open>mdb_txn_abort\<close> and \<^verbatim>\<open>mdb_txn_reset\<close> return
  \<^verbatim>\<open>void\<close> and yield only the new state. \<^verbatim>\<open>mdb_strerror\<close> maps a code to its description.
\<close>

record 'st engine =
  mdb_strerror :: "c_int \<Rightarrow> string"
  mdb_env_create :: "addr \<Rightarrow> 'st \<Rightarrow> c_int \<times> 'st"
  mdb_env_open :: "addr \<Rightarrow> string \<Rightarrow> c_uint \<Rightarrow> mode \<Rightarrow> 'st \<Rightarrow> c_int \<times> 'st"
  mdb_env_close :: "addr \<Rightarrow> 'st \<Rightarrow> 'st"
  mdb_env_set_flags :: "addr \<Rightarrow> c_uint \<Rightarrow> c_int \<Rightarrow> 'st \<Rightarrow> c_int \<times> 'st"
  mdb_env_set_mapsize :: "addr \<Rightarrow> size_t \<Rightarrow> 'st \<Rightarrow> c_int \<times> 'st"
  mdb_env_set_maxreaders :: "addr \<Rightarrow> c_uint \<Rightarrow> 'st \<Rightarrow> c_int \<times> 'st"
  mdb_env_set_maxdbs :: "addr \<Rightarrow> MDB_dbi \<Rightarrow> 'st \<Rightarrow> c_int \<times> 'st"
  mdb_env_sync :: "addr \<Rightarrow> c_int \<Rightarrow> 'st \<Rightarrow> c_int \<times> 'st"
  mdb_txn_begin :: "addr \<Rightarrow> addr \<Rightarrow> c_uint \<Rightarrow> addr \<Rightarrow> 'st \<Rightarrow> c_int \<times> 'st"
  mdb_txn_env :: "addr \<Rightarrow> 'st \<Rightarrow> addr \<times> 'st"
  mdb_txn_commit :: "addr \<Rightarrow> 'st \<Rightarrow> c_int \<times> 'st"
  mdb_txn_abort :: "addr \<Rightarrow> 'st \<Rightarrow> 'st"
  mdb_txn_reset :: "addr \<Rightarrow> 'st \<Rightarrow> 'st"
  mdb_txn_renew :: "addr \<Rightarrow> 'st \<Rightarrow> c_int \<times> 'st"

text \<open>
  \<^verbatim>\<open>what()\<close>, called by thread \<open>t\<close> on the error \<open>e\<close>: it overwrites the buffer of \<open>t\<close> with
  \<^verbatim>\<open>"%s: %s"\<close> of \<^verbatim>\<open>origin()\<close> and \<^verbatim>\<open>::mdb_strerror(code())\<close> and returns the buffer.
\<close>

definition what :: "'st engine \<Rightarrow> thread \<Rightarrow> error \<Rightarrow> buffers \<Rightarrow> char_ptr \<times> buffers" where
  "what E t e bufs =
     (Buffer t, bufs (t := snprintf 1024 (origin e) (mdb_strerror E (code e))))"

section \<open>Procedural interface: environment\<close>

text \<open>
  Every wrapper takes the engine and its state and returns the outcome with the state the
  engine is left in: \<open>Inr ()\<close> for a normal return of the \<^verbatim>\<open>void\<close> function, \<open>Inl e\<close> for the
  exception \<open>e\<close> leaving it. The fallible ones all have one shape,
  \<^verbatim>\<open>const int rc = ::mdb_f(...); if (rc != MDB_SUCCESS) { error::raise("mdb_f", rc); }\<close>.
\<close>

definition env_create :: "'st engine \<Rightarrow> addr \<Rightarrow> 'st \<Rightarrow> (error + unit) \<times> 'st" where
  "env_create E env s =
     (let (rc, s') = mdb_env_create E env s
      in (if rc \<noteq> MDB_SUCCESS then raise ''mdb_env_create'' rc else Inr (), s'))"

definition env_open ::
  "'st engine \<Rightarrow> addr \<Rightarrow> string \<Rightarrow> c_uint \<Rightarrow> mode \<Rightarrow> 'st \<Rightarrow> (error + unit) \<times> 'st" where
  "env_open E env path flags md s =
     (let (rc, s') = mdb_env_open E env path flags md s
      in (if rc \<noteq> MDB_SUCCESS then raise ''mdb_env_open'' rc else Inr (), s'))"

definition env_close :: "'st engine \<Rightarrow> addr \<Rightarrow> 'st \<Rightarrow> (error + unit) \<times> 'st" where
  "env_close E env s = (Inr (), mdb_env_close E env s)"

text \<open>
  \<^verbatim>\<open>env_set_flags(MDB_env* env, const unsigned int flags, const bool onoff = true)\<close>. The
  engine receives \<^verbatim>\<open>onoff ? 1 : 0\<close>. The last parameter has the default argument
  \<^verbatim>\<open>true\<close>: a call that leaves it out, \<^verbatim>\<open>env_set_flags(env, flags)\<close>, is the call with
  the default put in its place, which is \<open>env_set_flags_default\<close>.
\<close>

definition env_set_flags ::
  "'st engine \<Rightarrow> addr \<Rightarrow> c_uint \<Rightarrow> bool \<Rightarrow> 'st \<Rightarrow> (error + unit) \<times> 'st" where
  "env_set_flags E env flags onoff s =
     (let (rc, s') = mdb_env_set_flags E env flags (if onoff then 1 else 0) s
      in (if rc \<noteq> MDB_SUCCESS then raise ''mdb_env_set_flags'' rc else Inr (), s'))"

definition env_set_flags_default ::
  "'st engine \<Rightarrow> addr \<Rightarrow> c_uint \<Rightarrow> 'st \<Rightarrow> (error + unit) \<times> 'st" where
  "env_set_flags_default E env flags s = env_set_flags E env flags True s"

definition env_set_map_size ::
  "'st engine \<Rightarrow> addr \<Rightarrow> size_t \<Rightarrow> 'st \<Rightarrow> (error + unit) \<times> 'st" where
  "env_set_map_size E env sz s =
     (let (rc, s') = mdb_env_set_mapsize E env sz s
      in (if rc \<noteq> MDB_SUCCESS then raise ''mdb_env_set_mapsize'' rc else Inr (), s'))"

definition env_set_max_readers ::
  "'st engine \<Rightarrow> addr \<Rightarrow> c_uint \<Rightarrow> 'st \<Rightarrow> (error + unit) \<times> 'st" where
  "env_set_max_readers E env cnt s =
     (let (rc, s') = mdb_env_set_maxreaders E env cnt s
      in (if rc \<noteq> MDB_SUCCESS then raise ''mdb_env_set_maxreaders'' rc else Inr (), s'))"

definition env_set_max_dbs ::
  "'st engine \<Rightarrow> addr \<Rightarrow> MDB_dbi \<Rightarrow> 'st \<Rightarrow> (error + unit) \<times> 'st" where
  "env_set_max_dbs E env cnt s =
     (let (rc, s') = mdb_env_set_maxdbs E env cnt s
      in (if rc \<noteq> MDB_SUCCESS then raise ''mdb_env_set_maxdbs'' rc else Inr (), s'))"

text \<open>
  \<^verbatim>\<open>env_sync(MDB_env* env, const bool force = true)\<close>, again with a default argument, and
  \<open>env_sync_default\<close> for the call \<^verbatim>\<open>env_sync(env)\<close>. The \<^verbatim>\<open>bool\<close> is passed where the
  engine takes an \<^verbatim>\<open>int\<close>: the conversion gives 1 for \<^verbatim>\<open>true\<close> and 0 for \<^verbatim>\<open>false\<close>.
\<close>

definition env_sync ::
  "'st engine \<Rightarrow> addr \<Rightarrow> bool \<Rightarrow> 'st \<Rightarrow> (error + unit) \<times> 'st" where
  "env_sync E env force s =
     (let (rc, s') = mdb_env_sync E env (of_bool force) s
      in (if rc \<noteq> MDB_SUCCESS then raise ''mdb_env_sync'' rc else Inr (), s'))"

definition env_sync_default :: "'st engine \<Rightarrow> addr \<Rightarrow> 'st \<Rightarrow> (error + unit) \<times> 'st" where
  "env_sync_default E env s = env_sync E env True s"

section \<open>Procedural interface: transactions\<close>

definition txn_begin ::
  "'st engine \<Rightarrow> addr \<Rightarrow> addr \<Rightarrow> c_uint \<Rightarrow> addr \<Rightarrow> 'st \<Rightarrow> (error + unit) \<times> 'st" where
  "txn_begin E env parent flags txn s =
     (let (rc, s') = mdb_txn_begin E env parent flags txn s
      in (if rc \<noteq> MDB_SUCCESS then raise ''mdb_txn_begin'' rc else Inr (), s'))"

definition txn_env :: "'st engine \<Rightarrow> addr \<Rightarrow> 'st \<Rightarrow> (error + addr) \<times> 'st" where
  "txn_env E txn s = (let (env, s') = mdb_txn_env E txn s in (Inr env, s'))"

definition txn_commit :: "'st engine \<Rightarrow> addr \<Rightarrow> 'st \<Rightarrow> (error + unit) \<times> 'st" where
  "txn_commit E txn s =
     (let (rc, s') = mdb_txn_commit E txn s
      in (if rc \<noteq> MDB_SUCCESS then raise ''mdb_txn_commit'' rc else Inr (), s'))"

definition txn_abort :: "'st engine \<Rightarrow> addr \<Rightarrow> 'st \<Rightarrow> (error + unit) \<times> 'st" where
  "txn_abort E txn s = (Inr (), mdb_txn_abort E txn s)"

definition txn_reset :: "'st engine \<Rightarrow> addr \<Rightarrow> 'st \<Rightarrow> (error + unit) \<times> 'st" where
  "txn_reset E txn s = (Inr (), mdb_txn_reset E txn s)"

definition txn_renew :: "'st engine \<Rightarrow> addr \<Rightarrow> 'st \<Rightarrow> (error + unit) \<times> 'st" where
  "txn_renew E txn s =
     (let (rc, s') = mdb_txn_renew E txn s
      in (if rc \<noteq> MDB_SUCCESS then raise ''mdb_txn_renew'' rc else Inr (), s'))"

section \<open>Observing the calls made to the engine\<close>

text \<open>
  To speak of how often the wrapper enters the engine, and with which arguments, an engine
  is instrumented: \<open>traced E\<close> behaves as \<open>E\<close> does and appends every call it serves to a log
  kept beside the state of \<open>E\<close>.
\<close>

datatype call =
    Call_mdb_env_create addr
  | Call_mdb_env_open addr string c_uint mode
  | Call_mdb_env_close addr
  | Call_mdb_env_set_flags addr c_uint c_int
  | Call_mdb_env_set_mapsize addr size_t
  | Call_mdb_env_set_maxreaders addr c_uint
  | Call_mdb_env_set_maxdbs addr MDB_dbi
  | Call_mdb_env_sync addr c_int
  | Call_mdb_txn_begin addr addr c_uint addr
  | Call_mdb_txn_env addr
  | Call_mdb_txn_commit addr
  | Call_mdb_txn_abort addr
  | Call_mdb_txn_reset addr
  | Call_mdb_txn_renew addr

definition logged :: "call \<Rightarrow> ('st \<Rightarrow> 'r \<times> 'st) \<Rightarrow> 'st \<times> call list \<Rightarrow> 'r \<times> 'st \<times> call list" where
  "logged c f = (\<lambda>(s, tr). let (r, s') = f s in (r, s', tr @ [c]))"

definition logged_void :: "call \<Rightarrow> ('st \<Rightarrow> 'st) \<Rightarrow> 'st \<times> call list \<Rightarrow> 'st \<times> call list" where
  "logged_void c f = (\<lambda>(s, tr). (f s, tr @ [c]))"

definition traced :: "'st engine \<Rightarrow> ('st \<times> call list) engine" where
  "traced E = \<lparr>
     mdb_strerror = mdb_strerror E,
     mdb_env_create = (\<lambda>env. logged (Call_mdb_env_create env) (mdb_env_create E env)),
     mdb_env_open = (\<lambda>env path flags md.
       logged (Call_mdb_env_open env path flags md) (mdb_env_open E env path flags md)),
     mdb_env_close = (\<lambda>env. logged_void (Call_mdb_env_close env) (mdb_env_close E env)),
     mdb_env_set_flags = (\<lambda>env flags onoff.
       logged (Call_mdb_env_set_flags env flags onoff) (mdb_env_set_flags E env flags onoff)),
     mdb_env_set_mapsize = (\<lambda>env sz.
       logged (Call_mdb_env_set_mapsize env sz) (mdb_env_set_mapsize E env sz)),
     mdb_env_set_maxreaders = (\<lambda>env cnt.
       logged (Call_mdb_env_set_maxreaders env cnt) (mdb_env_set_maxreaders E env cnt)),
     mdb_env_set_maxdbs = (\<lambda>env cnt.
       logged (Call_mdb_env_set_maxdbs env cnt) (mdb_env_set_maxdbs E env cnt)),
     mdb_env_sync = (\<lambda>env force.
       logged (Call_mdb_env_sync env force) (mdb_env_sync E env force)),
     mdb_txn_begin = (\<lambda>env parent flags txn.
       logged (Call_mdb_txn_begin env parent flags txn) (mdb_txn_begin E env parent flags txn)),
     mdb_txn_env = (\<lambda>txn. logged (Call_mdb_txn_env txn) (mdb_txn_env E txn)),
     mdb_txn_commit = (\<lambda>txn. logged (Call_mdb_txn_commit txn) (mdb_txn_commit E txn)),
     mdb_txn_abort = (\<lambda>txn. logged_void (Call_mdb_txn_abort txn) (mdb_txn_abort E txn)),
     mdb_txn_reset = (\<lambda>txn. logged_void (Call_mdb_txn_reset txn) (mdb_txn_reset E txn)),
     mdb_txn_renew = (\<lambda>txn. logged (Call_mdb_txn_renew txn) (mdb_txn_renew E txn)) \<rparr>"

text \<open>
  What the wrapper owes its caller when the engine has answered \<open>rc\<close> with a failure: an
  exception whose \<open>code()\<close> is \<open>rc\<close> and whose class follows the classification rule.
\<close>

definition classified_failure :: "error + unit \<Rightarrow> c_int \<Rightarrow> bool" where
  "classified_failure r rc =
     (case r of
        Inr _ \<Rightarrow> False
      | Inl e \<Rightarrow> code e = rc \<and> dynamic_class e =
          (if rc = MDB_KEYEXIST then Key_exist_error
           else if rc = MDB_NOTFOUND then Not_found_error else Error))"

section \<open>A small engine to run the wrapper against\<close>

text \<open>
  A stand-in for the library, used to evaluate the wrapper on concrete calls. Its state
  counts the calls served. A call on the null handle is refused with \<^verbatim>\<open>EINVAL\<close> (22), every
  other call succeeds; descriptions are given for the codes that occur.
\<close>

definition EINVAL :: c_int where
  "EINVAL = 22"

definition stub_status :: "addr \<Rightarrow> nat \<Rightarrow> c_int \<times> nat" where
  "stub_status h n = (if h = 0 then EINVAL else MDB_SUCCESS, Suc n)"

definition stub_strerror :: "c_int \<Rightarrow> string" where
  "stub_strerror rc =
     (if rc = MDB_SUCCESS then ''Successful return: 0''
      else if rc = MDB_KEYEXIST then ''MDB_KEYEXIST: Key/data pair already exists''
      else if rc = MDB_NOTFOUND then ''MDB_NOTFOUND: No matching key/data pair found''
      else if rc = EINVAL then ''Invalid argument''
      else ''Unknown error'')"

definition stub_engine :: "nat engine" where
  "stub_engine = \<lparr>
     mdb_strerror = stub_strerror,
     mdb_env_create = stub_status,
     mdb_env_open = (\<lambda>env path flags md. stub_status env),
     mdb_env_close = (\<lambda>env. Suc),
     mdb_env_set_flags = (\<lambda>env flags onoff. stub_status env),
     mdb_env_set_mapsize = (\<lambda>env sz. stub_status env),
     mdb_env_set_maxreaders = (\<lambda>env cnt. stub_status env),
     mdb_env_set_maxdbs = (\<lambda>env cnt. stub_status env),
     mdb_env_sync = (\<lambda>env force. stub_status env),
     mdb_txn_begin = (\<lambda>env parent flags txn. stub_status env),
     mdb_txn_env = (\<lambda>txn n. (txn, Suc n)),
     mdb_txn_commit = stub_status,
     mdb_txn_abort = (\<lambda>txn. Suc),
     mdb_txn_reset = (\<lambda>txn. Suc),
     mdb_txn_renew = stub_status \<rparr>"

section \<open>The error classifier\<close>

lemma status_constants_distinct:
  "MDB_KEYEXIST \<noteq> MDB_NOTFOUND" "MDB_SUCCESS \<noteq> MDB_KEYEXIST" "MDB_SUCCESS \<noteq> MDB_NOTFOUND"
  by (simp_all add: MDB_SUCCESS_def MDB_KEYEXIST_def MDB_NOTFOUND_def)

lemma raise_cases:
  "raise orig rc = Inl (Exception
     (if rc = MDB_KEYEXIST then Key_exist_error
      else if rc = MDB_NOTFOUND then Not_found_error else Error) orig rc)"
  by (simp add: raise_def error_ctor_def key_exist_error_ctor_def not_found_error_ctor_def)

text \<open>
  Claim C1. For every status code \<open>rc\<close> other than success and every origin, the classifier
  throws an error whose \<open>code()\<close> is exactly \<open>rc\<close>; that error is a \<open>key_exist_error\<close> if
  and only if \<open>rc\<close> is \<open>MDB_KEYEXIST\<close>, a \<open>not_found_error\<close> if and only if \<open>rc\<close> is
  \<open>MDB_NOTFOUND\<close>, and the generic \<open>lmdb::error\<close> in every other case. Nothing is assumed
  of \<open>rc\<close> beyond its being a C \<open>int\<close>, so codes outside any enumeration are covered.
\<close>

theorem raise_classifies:
  assumes "rc \<noteq> MDB_SUCCESS"
  shows "\<exists>e. raise orig rc = Inl e \<and> code e = rc
           \<and> (dynamic_class e = Key_exist_error \<longleftrightarrow> rc = MDB_KEYEXIST)
           \<and> (dynamic_class e = Not_found_error \<longleftrightarrow> rc = MDB_NOTFOUND)
           \<and> (dynamic_class e = Error \<longleftrightarrow> rc \<noteq> MDB_KEYEXIST \<and> rc \<noteq> MDB_NOTFOUND)"
  using status_constants_distinct(1) by (simp add: raise_cases code_def)

theorem raise_classifies_witness:
  "MDB_NOTFOUND \<noteq> MDB_SUCCESS
   \<and> (\<exists>e. raise ''mdb_env_open'' MDB_NOTFOUND = Inl e \<and> code e = MDB_NOTFOUND
        \<and> (dynamic_class e = Key_exist_error \<longleftrightarrow> MDB_NOTFOUND = MDB_KEYEXIST)
        \<and> (dynamic_class e = Not_found_error \<longleftrightarrow> MDB_NOTFOUND = MDB_NOTFOUND)
        \<and> (dynamic_class e = Error \<longleftrightarrow> MDB_NOTFOUND \<noteq> MDB_KEYEXIST \<and> MDB_NOTFOUND \<noteq> MDB_NOTFOUND))"
proof -
  have ne: "MDB_NOTFOUND \<noteq> MDB_SUCCESS"
    by (simp add: MDB_SUCCESS_def MDB_NOTFOUND_def)
  from raise_classifies [OF ne, of "''mdb_env_open''"] ne show ?thesis
    by simp
qed

text \<open>
  Claim C2. The classifier never returns normally: whatever origin and code it is called
  with, the call ends in a thrown error.
\<close>

theorem raise_never_returns:
  "raise orig rc \<noteq> Inr () \<and> (\<exists>e. raise orig rc = Inl e)"
  by (simp add: raise_cases)

text \<open>
  Claim C9. The classifier is defined on the success sentinel as well: called with
  \<open>MDB_SUCCESS\<close> it still throws, and what it throws is the generic \<open>lmdb::error\<close> with
  \<open>code()\<close> equal to \<open>MDB_SUCCESS\<close>.
\<close>

theorem raise_on_success_code:
  "raise orig MDB_SUCCESS = Inl (error_ctor orig MDB_SUCCESS)
   \<and> dynamic_class (error_ctor orig MDB_SUCCESS) = Error
   \<and> code (error_ctor orig MDB_SUCCESS) = MDB_SUCCESS"
  using status_constants_distinct(2,3)
  by (simp add: raise_def error_ctor_def code_def)

section \<open>The error object and its message\<close>

lemmas stub_simps =
  stub_engine_def stub_status_def stub_strerror_def EINVAL_def
  MDB_SUCCESS_def MDB_KEYEXIST_def MDB_NOTFOUND_def

text \<open>
  Claim C7. An error built from an origin \<open>o\<close> and a code \<open>c\<close> reports exactly these through
  its accessors, in each of the three classes: \<open>origin()\<close> is \<open>o\<close> and \<open>code()\<close> is \<open>c\<close>.
  The object has no operation that writes either part (\<open>_code\<close> is \<open>const\<close>, the base class
  keeps its own copy of the string), so this holds for as long as the error exists.
\<close>

theorem error_accessors:
  "origin (error_ctor orig c) = orig \<and> code (error_ctor orig c) = c
   \<and> origin (key_exist_error_ctor orig c) = orig \<and> code (key_exist_error_ctor orig c) = c
   \<and> origin (not_found_error_ctor orig c) = orig \<and> code (not_found_error_ctor orig c) = c"
  by (simp add: origin_def code_def error_ctor_def key_exist_error_ctor_def
      not_found_error_ctor_def)

lemma what_message:
  "c_str (snd (what E t e bufs)) (fst (what E t e bufs))
     = take 1023 (origin e @ '': '' @ mdb_strerror E (code e))"
  by (simp add: what_def snprintf_def)

text \<open>
  Claim C8, as the code has it. The message of an error with origin \<open>o\<close> and code \<open>c\<close> is
  the text \<open>o\<close>, colon, space, description of \<open>c\<close>, cut to the 1023 characters the buffer
  has room for; it is the whole text whenever that is at most 1023 characters long.
\<close>

theorem what_is_truncated_concatenation:
  "c_str (snd (what E t e bufs)) (fst (what E t e bufs))
     = take 1023 (origin e @ '': '' @ mdb_strerror E (code e))
   \<and> (length (origin e) + 2 + length (mdb_strerror E (code e)) \<le> 1023 \<longrightarrow>
        c_str (snd (what E t e bufs)) (fst (what E t e bufs))
          = origin e @ '': '' @ mdb_strerror E (code e))"
  by (simp add: what_message)

theorem what_is_truncated_concatenation_witness:
  "length (origin (error_ctor ''mdb_env_open'' EINVAL)) + 2
       + length (mdb_strerror stub_engine (code (error_ctor ''mdb_env_open'' EINVAL))) \<le> 1023
   \<and> c_str (snd (what stub_engine 0 (error_ctor ''mdb_env_open'' EINVAL) initial_buffers))
        (fst (what stub_engine 0 (error_ctor ''mdb_env_open'' EINVAL) initial_buffers))
      = ''mdb_env_open: Invalid argument''"
proof -
  have parts: "origin (error_ctor ''mdb_env_open'' EINVAL) = ''mdb_env_open''"
    "mdb_strerror stub_engine (code (error_ctor ''mdb_env_open'' EINVAL)) = ''Invalid argument''"
    by (simp_all add: origin_def code_def error_ctor_def stub_simps)
  from what_is_truncated_concatenation [of stub_engine 0
      "error_ctor ''mdb_env_open'' EINVAL" initial_buffers] parts
  show ?thesis
    by simp
qed

text \<open>
  The claim itself fails on a long origin: with an origin of 1100 characters the message
  is not the concatenation (it stops after 1023 characters).
\<close>

theorem long_origin_counterexample:
  "c_str (snd (what stub_engine 0 (error_ctor (replicate 1100 (CHR ''x'')) EINVAL)
        initial_buffers))
      (fst (what stub_engine 0 (error_ctor (replicate 1100 (CHR ''x'')) EINVAL)
        initial_buffers))
     \<noteq> origin (error_ctor (replicate 1100 (CHR ''x'')) EINVAL) @ '': ''
         @ mdb_strerror stub_engine (code (error_ctor (replicate 1100 (CHR ''x'')) EINVAL))"
proof
  assume "c_str (snd (what stub_engine 0 (error_ctor (replicate 1100 (CHR ''x'')) EINVAL)
        initial_buffers))
      (fst (what stub_engine 0 (error_ctor (replicate 1100 (CHR ''x'')) EINVAL)
        initial_buffers))
     = origin (error_ctor (replicate 1100 (CHR ''x'')) EINVAL) @ '': ''
         @ mdb_strerror stub_engine (code (error_ctor (replicate 1100 (CHR ''x'')) EINVAL))"
  then have "length (take 1023 (origin (error_ctor (replicate 1100 (CHR ''x'')) EINVAL) @ '': ''
         @ mdb_strerror stub_engine (code (error_ctor (replicate 1100 (CHR ''x'')) EINVAL))))
     = length (origin (error_ctor (replicate 1100 (CHR ''x'')) EINVAL) @ '': ''
         @ mdb_strerror stub_engine (code (error_ctor (replicate 1100 (CHR ''x'')) EINVAL)))"
    by (simp only: what_message)
  then show False
    by (simp add: origin_def error_ctor_def)
qed

text \<open>
  Claim C6, as the code has it. The message is not owned by the error: \<open>what()\<close> writes it
  into the one buffer of the calling thread and returns that buffer. Read at once, the
  text is determined by the origin and the code of the error alone. A later \<open>what()\<close> in
  another thread leaves it as it is; a later \<open>what()\<close> in the same thread, on whatever
  error, replaces it, and the pointer obtained first then reads the later message.
\<close>

theorem what_shares_thread_buffer:
  "c_str (snd (what E t e bufs)) (fst (what E t e bufs))
     = snprintf 1024 (origin e) (mdb_strerror E (code e))
   \<and> (t' \<noteq> t \<longrightarrow>
        c_str (snd (what E t' e' (snd (what E t e bufs)))) (fst (what E t e bufs))
          = c_str (snd (what E t e bufs)) (fst (what E t e bufs)))
   \<and> c_str (snd (what E t e' (snd (what E t e bufs)))) (fst (what E t e bufs))
     = snprintf 1024 (origin e') (mdb_strerror E (code e'))"
  by (simp add: what_def)

theorem what_shares_thread_buffer_witness:
  "(1::thread) \<noteq> 0
   \<and> c_str (snd (what stub_engine 0 (error_ctor ''mdb_env_open'' EINVAL) initial_buffers))
        (fst (what stub_engine 0 (error_ctor ''mdb_env_open'' EINVAL) initial_buffers))
      = ''mdb_env_open: Invalid argument''
   \<and> c_str (snd (what stub_engine 1 (not_found_error_ctor ''mdb_txn_renew'' MDB_NOTFOUND)
          (snd (what stub_engine 0 (error_ctor ''mdb_env_open'' EINVAL) initial_buffers))))
        (fst (what stub_engine 0 (error_ctor ''mdb_env_open'' EINVAL) initial_buffers))
      = ''mdb_env_open: Invalid argument''"
proof -
  have ne: "(1::thread) \<noteq> 0"
    by simp
  have msg: "snprintf 1024 (origin (error_ctor ''mdb_env_open'' EINVAL))
      (mdb_strerror stub_engine (code (error_ctor ''mdb_env_open'' EINVAL)))
    = ''mdb_env_open: Invalid argument''"
    by (simp add: snprintf_def origin_def code_def error_ctor_def stub_simps)
  from what_shares_thread_buffer [of stub_engine 0 "error_ctor ''mdb_env_open'' EINVAL"
      initial_buffers 1 "not_found_error_ctor ''mdb_txn_renew'' MDB_NOTFOUND"] ne msg
  show ?thesis
    by simp
qed

text \<open>
  The claim itself fails in one thread: the message obtained from a first error reads
  differently once the message of a second error has been formatted.
\<close>

theorem message_overwritten_counterexample:
  "c_str (snd (what stub_engine 0 (error_ctor ''mdb_env_open'' EINVAL) initial_buffers))
        (fst (what stub_engine 0 (error_ctor ''mdb_env_open'' EINVAL) initial_buffers))
      = ''mdb_env_open: Invalid argument''
   \<and> c_str (snd (what stub_engine 0 (not_found_error_ctor ''mdb_txn_renew'' MDB_NOTFOUND)
          (snd (what stub_engine 0 (error_ctor ''mdb_env_open'' EINVAL) initial_buffers))))
        (fst (what stub_engine 0 (error_ctor ''mdb_env_open'' EINVAL) initial_buffers))
      = ''mdb_txn_renew: MDB_NOTFOUND: No matching key/data pair found''"
  by (simp add: what_def snprintf_def origin_def code_def error_ctor_def
      not_found_error_ctor_def stub_simps)

section \<open>The wrappers\<close>

lemma logged_apply: "logged c f (s, tr) = (fst (f s), snd (f s), tr @ [c])"
  by (simp add: logged_def split: prod.split)

lemma logged_void_apply: "logged_void c f (s, tr) = (f s, tr @ [c])"
  by (simp add: logged_void_def)

lemma raise_classified: "classified_failure (raise orig rc) rc"
  by (simp add: classified_failure_def raise_cases code_def)

lemma raise_not_Inr: "raise orig rc \<noteq> Inr ()"
  by (simp add: raise_cases)

lemma env_create_contract:
  "(fst (env_create E env s) = Inr ())
       = (fst (mdb_env_create E env s) = MDB_SUCCESS)"
  "fst (mdb_env_create E env s) \<noteq> MDB_SUCCESS \<longrightarrow>
       classified_failure (fst (env_create E env s))
         (fst (mdb_env_create E env s))"
  "snd (env_create (traced E) env (s, tr))
       = (snd (mdb_env_create E env s),
          tr @ [Call_mdb_env_create env])"
  by (simp_all add: env_create_def traced_def logged_apply raise_classified raise_not_Inr
      split: prod.split)

lemma env_open_contract:
  "(fst (env_open E env path flags md s) = Inr ())
       = (fst (mdb_env_open E env path flags md s) = MDB_SUCCESS)"
  "fst (mdb_env_open E env path flags md s) \<noteq> MDB_SUCCESS \<longrightarrow>
       classified_failure (fst (env_open E env path flags md s))
         (fst (mdb_env_open E env path flags md s))"
  "snd (env_open (traced E) env path flags md (s, tr))
       = (snd (mdb_env_open E env path flags md s),
          tr @ [Call_mdb_env_open env path flags md])"
  by (simp_all add: env_open_def traced_def logged_apply raise_classified raise_not_Inr
      split: prod.split)

lemma env_set_flags_contract:
  "(fst (env_set_flags E env flags onoff s) = Inr ())
       = (fst (mdb_env_set_flags E env flags (if onoff then 1 else 0) s) = MDB_SUCCESS)"
  "fst (mdb_env_set_flags E env flags (if onoff then 1 else 0) s) \<noteq> MDB_SUCCESS \<longrightarrow>
       classified_failure (fst (env_set_flags E env flags onoff s))
         (fst (mdb_env_set_flags E env flags (if onoff then 1 else 0) s))"
  "snd (env_set_flags (traced E) env flags onoff (s, tr))
       = (snd (mdb_env_set_flags E env flags (if onoff then 1 else 0) s),
          tr @ [Call_mdb_env_set_flags env flags (if onoff then 1 else 0)])"
  by (simp_all add: env_set_flags_def traced_def logged_apply raise_classified raise_not_Inr
      split: prod.split)

lemma env_set_map_size_contract:
  "(fst (env_set_map_size E env sz s) = Inr ())
       = (fst (mdb_env_set_mapsize E env sz s) = MDB_SUCCESS)"
  "fst (mdb_env_set_mapsize E env sz s) \<noteq> MDB_SUCCESS \<longrightarrow>
       classified_failure (fst (env_set_map_size E env sz s))
         (fst (mdb_env_set_mapsize E env sz s))"
  "snd (env_set_map_size (traced E) env sz (s, tr))
       = (snd (mdb_env_set_mapsize E env sz s),
          tr @ [Call_mdb_env_set_mapsize env sz])"
  by (simp_all add: env_set_map_size_def traced_def logged_apply raise_classified raise_not_Inr
      split: prod.split)

lemma env_set_max_readers_contract:
  "(fst (env_set_max_readers E env cnt s) = Inr ())
       = (fst (mdb_env_set_maxreaders E env cnt s) = MDB_SUCCESS)"
  "fst (mdb_env_set_maxreaders E env cnt s) \<noteq> MDB_SUCCESS \<longrightarrow>
       classified_failure (fst (env_set_max_readers E env cnt s))
         (fst (mdb_env_set_maxreaders E env cnt s))"
  "snd (env_set_max_readers (traced E) env cnt (s, tr))
       = (snd (mdb_env_set_maxreaders E env cnt s),
          tr @ [Call_mdb_env_set_maxreaders env cnt])"
  by (simp_all add: env_set_max_readers_def traced_def logged_apply raise_classified raise_not_Inr
      split: prod.split)

lemma env_set_max_dbs_contract:
  "(fst (env_set_max_dbs E env dbs s) = Inr ())
       = (fst (mdb_env_set_maxdbs E env dbs s) = MDB_SUCCESS)"
  "fst (mdb_env_set_maxdbs E env dbs s) \<noteq> MDB_SUCCESS \<longrightarrow>
       classified_failure (fst (env_set_max_dbs E env dbs s))
         (fst (mdb_env_set_maxdbs E env dbs s))"
  "snd (env_set_max_dbs (traced E) env dbs (s, tr))
       = (snd (mdb_env_set_maxdbs E env dbs s),
          tr @ [Call_mdb_env_set_maxdbs env dbs])"
  by (simp_all add: env_set_max_dbs_def traced_def logged_apply raise_classified raise_not_Inr
      split: prod.split)

lemma env_sync_contract:
  "(fst (env_sync E env force s) = Inr ())
       = (fst (mdb_env_sync E env (of_bool force) s) = MDB_SUCCESS)"
  "fst (mdb_env_sync E env (of_bool force) s) \<noteq> MDB_SUCCESS \<longrightarrow>
       classified_failure (fst (env_sync E env force s))
         (fst (mdb_env_sync E env (of_bool force) s))"
  "snd (env_sync (traced E) env force (s, tr))
       = (snd (mdb_env_sync E env (of_bool force) s),
          tr @ [Call_mdb_env_sync env (of_bool force)])"
  by (simp_all add: env_sync_def traced_def logged_apply raise_classified raise_not_Inr
      split: prod.split)

lemma txn_begin_contract:
  "(fst (txn_begin E env parent flags out s) = Inr ())
       = (fst (mdb_txn_begin E env parent flags out s) = MDB_SUCCESS)"
  "fst (mdb_txn_begin E env parent flags out s) \<noteq> MDB_SUCCESS \<longrightarrow>
       classified_failure (fst (txn_begin E env parent flags out s))
         (fst (mdb_txn_begin E env parent flags out s))"
  "snd (txn_begin (traced E) env parent flags out (s, tr))
       = (snd (mdb_txn_begin E env parent flags out s),
          tr @ [Call_mdb_txn_begin env parent flags out])"
  by (simp_all add: txn_begin_def traced_def logged_apply raise_classified raise_not_Inr
      split: prod.split)

lemma txn_commit_contract:
  "(fst (txn_commit E txn s) = Inr ())
       = (fst (mdb_txn_commit E txn s) = MDB_SUCCESS)"
  "fst (mdb_txn_commit E txn s) \<noteq> MDB_SUCCESS \<longrightarrow>
       classified_failure (fst (txn_commit E txn s))
         (fst (mdb_txn_commit E txn s))"
  "snd (txn_commit (traced E) txn (s, tr))
       = (snd (mdb_txn_commit E txn s),
          tr @ [Call_mdb_txn_commit txn])"
  by (simp_all add: txn_commit_def traced_def logged_apply raise_classified raise_not_Inr
      split: prod.split)

lemma txn_renew_contract:
  "(fst (txn_renew E txn s) = Inr ())
       = (fst (mdb_txn_renew E txn s) = MDB_SUCCESS)"
  "fst (mdb_txn_renew E txn s) \<noteq> MDB_SUCCESS \<longrightarrow>
       classified_failure (fst (txn_renew E txn s))
         (fst (mdb_txn_renew E txn s))"
  "snd (txn_renew (traced E) txn (s, tr))
       = (snd (mdb_txn_renew E txn s),
          tr @ [Call_mdb_txn_renew txn])"
  by (simp_all add: txn_renew_def traced_def logged_apply raise_classified raise_not_Inr
      split: prod.split)

text \<open>
  Claim C3. Each fallible wrapper (\<open>env_create\<close>, \<open>env_open\<close>, \<open>env_set_flags\<close>,
  \<open>env_set_map_size\<close>, \<open>env_set_max_readers\<close>, \<open>env_set_max_dbs\<close>, \<open>env_sync\<close>, \<open>txn_begin\<close>,
  \<open>txn_commit\<close>, \<open>txn_renew\<close>) returns normally if and only if the engine call it makes
  answers \<open>MDB_SUCCESS\<close>; on any other status it throws a classified error carrying that
  status; and it enters the engine exactly once: the log of an instrumented engine grows
  by that one call, and the engine is left in the state that one call produces.
\<close>

theorem fallible_wrappers:
  "((fst (env_create E env s) = Inr ())
        = (fst (mdb_env_create E env s) = MDB_SUCCESS)
    \<and> (fst (mdb_env_create E env s) \<noteq> MDB_SUCCESS \<longrightarrow>
        classified_failure (fst (env_create E env s))
          (fst (mdb_env_create E env s)))
    \<and> snd (env_create (traced E) env (s, tr))
        = (snd (mdb_env_create E env s),
           tr @ [Call_mdb_env_create env]))
   \<and> ((fst (env_open E env path flags md s) = Inr ())
        = (fst (mdb_env_open E env path flags md s) = MDB_SUCCESS)
    \<and> (fst (mdb_env_open E env path flags md s) \<noteq> MDB_SUCCESS \<longrightarrow>
        classified_failure (fst (env_open E env path flags md s))
          (fst (mdb_env_open E env path flags md s)))
    \<and> snd (env_open (traced E) env path flags md (s, tr))
        = (snd (mdb_env_open E env path flags md s),
           tr @ [Call_mdb_env_open env path flags md]))
   \<and> ((fst (env_set_flags E env flags onoff s) = Inr ())
        = (fst (mdb_env_set_flags E env flags (if onoff then 1 else 0) s) = MDB_SUCCESS)
    \<and> (fst (mdb_env_set_flags E env flags (if onoff then 1 else 0) s) \<noteq> MDB_SUCCESS \<longrightarrow>
        classified_failure (fst (env_set_flags E env flags onoff s))
          (fst (mdb_env_set_flags E env flags (if onoff then 1 else 0) s)))
    \<and> snd (env_set_flags (traced E) env flags onoff (s, tr))
        = (snd (mdb_env_set_flags E env flags (if onoff then 1 else 0) s),
           tr @ [Call_mdb_env_set_flags env flags (if onoff then 1 else 0)]))
   \<and> ((fst (env_set_map_size E env sz s) = Inr ())
        = (fst (mdb_env_set_mapsize E env sz s) = MDB_SUCCESS)
    \<and> (fst (mdb_env_set_mapsize E env sz s) \<noteq> MDB_SUCCESS \<longrightarrow>
        classified_failure (fst (env_set_map_size E env sz s))
          (fst (mdb_env_set_mapsize E env sz s)))
    \<and> snd (env_set_map_size (traced E) env sz (s, tr))
        = (snd (mdb_env_set_mapsize E env sz s),
           tr @ [Call_mdb_env_set_mapsize env sz]))
   \<and> ((fst (env_set_max_readers E env cnt s) = Inr ())
        = (fst (mdb_env_set_maxreaders E env cnt s) = MDB_SUCCESS)
    \<and> (fst (mdb_env_set_maxreaders E env cnt s) \<noteq> MDB_SUCCESS \<longrightarrow>
        classified_failure (fst (env_set_max_readers E env cnt s))
          (fst (mdb_env_set_maxreaders E env cnt s)))
    \<and> snd (env_set_max_readers (traced E) env cnt (s, tr))
        = (snd (mdb_env_set_maxreaders E env cnt s),
           tr @ [Call_mdb_env_set_maxreaders env cnt]))
   \<and> ((fst (env_set_max_dbs E env dbs s) = Inr ())
        = (fst (mdb_env_set_maxdbs E env dbs s) = MDB_SUCCESS)
    \<and> (fst (mdb_env_set_maxdbs E env dbs s) \<noteq> MDB_SUCCESS \<longrightarrow>
        classified_failure (fst (env_set_max_dbs E env dbs s))
          (fst (mdb_env_set_maxdbs E env dbs s)))
    \<and> snd (env_set_max_dbs (traced E) env dbs (s, tr))
        = (snd (mdb_env_set_maxdbs E env dbs s),
           tr @ [Call_mdb_env_set_maxdbs env dbs]))
   \<and> ((fst (env_sync E env force s) = Inr ())
        = (fst (mdb_env_sync E env (of_bool force) s) = MDB_SUCCESS)
    \<and> (fst (mdb_env_sync E env (of_bool force) s) \<noteq> MDB_SUCCESS \<longrightarrow>
        classified_failure (fst (env_sync E env force s))
          (fst (mdb_env_sync E env (of_bool force) s)))
    \<and> snd (env_sync (traced E) env force (s, tr))
        = (snd (mdb_env_sync E env (of_bool force) s),
           tr @ [Call_mdb_env_sync env (of_bool force)]))
   \<and> ((fst (txn_begin E env parent flags out s) = Inr ())
        = (fst (mdb_txn_begin E env parent flags out s) = MDB_SUCCESS)
    \<and> (fst (mdb_txn_begin E env parent flags out s) \<noteq> MDB_SUCCESS \<longrightarrow>
        classified_failure (fst (txn_begin E env parent flags out s))
          (fst (mdb_txn_begin E env parent flags out s)))
    \<and> snd (txn_begin (traced E) env parent flags out (s, tr))
        = (snd (mdb_txn_begin E env parent flags out s),
           tr @ [Call_mdb_txn_begin env parent flags out]))
   \<and> ((fst (txn_commit E txn s) = Inr ())
        = (fst (mdb_txn_commit E txn s) = MDB_SUCCESS)
    \<and> (fst (mdb_txn_commit E txn s) \<noteq> MDB_SUCCESS \<longrightarrow>
        classified_failure (fst (txn_commit E txn s))
          (fst (mdb_txn_commit E txn s)))
    \<and> snd (txn_commit (traced E) txn (s, tr))
        = (snd (mdb_txn_commit E txn s),
           tr @ [Call_mdb_txn_commit txn]))
   \<and> ((fst (txn_renew E txn s) = Inr ())
        = (fst (mdb_txn_renew E txn s) = MDB_SUCCESS)
    \<and> (fst (mdb_txn_renew E txn s) \<noteq> MDB_SUCCESS \<longrightarrow>
        classified_failure (fst (txn_renew E txn s))
          (fst (mdb_txn_renew E txn s)))
    \<and> snd (txn_renew (traced E) txn (s, tr))
        = (snd (mdb_txn_renew E txn s),
           tr @ [Call_mdb_txn_renew txn]))"
  by (intro conjI env_create_contract env_open_contract env_set_flags_contract
      env_set_map_size_contract env_set_max_readers_contract env_set_max_dbs_contract
      env_sync_contract txn_begin_contract txn_commit_contract txn_renew_contract)

theorem fallible_wrappers_witness:
  "fst (mdb_env_create stub_engine 0 0) \<noteq> MDB_SUCCESS
   \<and> classified_failure (fst (env_create stub_engine 0 0)) EINVAL
   \<and> fst (env_create stub_engine 0 0) \<noteq> Inr ()
   \<and> snd (env_create (traced stub_engine) 0 (0, [])) = (1, [Call_mdb_env_create 0])
   \<and> fst (mdb_env_open stub_engine 0 ''/tmp/db'' 65536 420 0) \<noteq> MDB_SUCCESS
   \<and> classified_failure (fst (env_open stub_engine 0 ''/tmp/db'' 65536 420 0)) EINVAL
   \<and> fst (mdb_env_set_flags stub_engine 0 65536 (if False then 1 else 0) 0) \<noteq> MDB_SUCCESS
   \<and> classified_failure (fst (env_set_flags stub_engine 0 65536 False 0)) EINVAL
   \<and> fst (mdb_env_set_mapsize stub_engine 0 1048576 0) \<noteq> MDB_SUCCESS
   \<and> classified_failure (fst (env_set_map_size stub_engine 0 1048576 0)) EINVAL
   \<and> fst (mdb_env_set_maxreaders stub_engine 0 126 0) \<noteq> MDB_SUCCESS
   \<and> classified_failure (fst (env_set_max_readers stub_engine 0 126 0)) EINVAL
   \<and> fst (mdb_env_set_maxdbs stub_engine 0 4 0) \<noteq> MDB_SUCCESS
   \<and> classified_failure (fst (env_set_max_dbs stub_engine 0 4 0)) EINVAL
   \<and> fst (mdb_env_sync stub_engine 0 (of_bool True) 0) \<noteq> MDB_SUCCESS
   \<and> classified_failure (fst (env_sync stub_engine 0 True 0)) EINVAL
   \<and> fst (mdb_txn_begin stub_engine 0 0 65536 8 0) \<noteq> MDB_SUCCESS
   \<and> classified_failure (fst (txn_begin stub_engine 0 0 65536 8 0)) EINVAL
   \<and> fst (mdb_txn_commit stub_engine 0 0) \<noteq> MDB_SUCCESS
   \<and> classified_failure (fst (txn_commit stub_engine 0 0)) EINVAL
   \<and> fst (mdb_txn_renew stub_engine 0 0) \<noteq> MDB_SUCCESS
   \<and> classified_failure (fst (txn_renew stub_engine 0 0)) EINVAL"
proof -
  have rc:
    "fst (mdb_env_create stub_engine 0 0) = EINVAL"
    "fst (mdb_env_open stub_engine 0 ''/tmp/db'' 65536 420 0) = EINVAL"
    "fst (mdb_env_set_flags stub_engine 0 65536 (if False then 1 else 0) 0) = EINVAL"
    "fst (mdb_env_set_mapsize stub_engine 0 1048576 0) = EINVAL"
    "fst (mdb_env_set_maxreaders stub_engine 0 126 0) = EINVAL"
    "fst (mdb_env_set_maxdbs stub_engine 0 4 0) = EINVAL"
    "fst (mdb_env_sync stub_engine 0 (of_bool True) 0) = EINVAL"
    "fst (mdb_txn_begin stub_engine 0 0 65536 8 0) = EINVAL"
    "fst (mdb_txn_commit stub_engine 0 0) = EINVAL"
    "fst (mdb_txn_renew stub_engine 0 0) = EINVAL"
    "snd (mdb_env_create stub_engine 0 0) = 1"
    by (simp_all add: stub_engine_def stub_status_def)
  have ne: "EINVAL \<noteq> MDB_SUCCESS"
    by (simp add: EINVAL_def MDB_SUCCESS_def)
  from fallible_wrappers [where E = stub_engine and env = 0 and s = 0 and tr = "[]"
      and path = "''/tmp/db''" and flags = 65536 and md = 420 and onoff = False
      and sz = 1048576 and cnt = 126 and dbs = 4 and force = True and parent = 0 and out = 8
      and txn = 0]
  show ?thesis
    using rc ne by simp
qed

text \<open>
  Claim C4. The operations that close, abort and reset never fail: \<open>env_close\<close>,
  \<open>txn_abort\<close> and \<open>txn_reset\<close> return normally on every handle, in every state and with
  every engine, the engine's primitives having no status to report.
\<close>

theorem close_abort_reset_never_fail:
  "fst (env_close E env s) = Inr ()
   \<and> fst (txn_abort E txn s) = Inr ()
   \<and> fst (txn_reset E txn s) = Inr ()"
  by (simp add: env_close_def txn_abort_def txn_reset_def)

text \<open>
  Claim C10. The boolean parameters default to \<open>true\<close>: \<open>env_set_flags(env, flags)\<close> is
  \<open>env_set_flags(env, flags, true)\<close> and passes 1 to the engine, and \<open>env_sync(env)\<close> is
  \<open>env_sync(env, true)\<close>, a forced flush (the engine receives 1).
\<close>

theorem default_arguments:
  "env_set_flags_default E env flags s = env_set_flags E env flags True s
   \<and> snd (snd (env_set_flags_default (traced E) env flags (s, tr)))
       = tr @ [Call_mdb_env_set_flags env flags 1]
   \<and> env_sync_default E env s = env_sync E env True s
   \<and> snd (snd (env_sync_default (traced E) env (s, tr)))
       = tr @ [Call_mdb_env_sync env 1]"
  by (simp add: env_set_flags_default_def env_sync_default_def env_set_flags_def
      env_sync_def traced_def logged_apply split: prod.split)

text \<open>
  Claim C5, as the code has it. The claim asks that a handle be consumed by \<open>close\<close>,
  \<open>commit\<close> and \<open>abort\<close>, so that a second close, or a use after commit or abort, cannot
  be written. The procedural interface takes the handle as a plain pointer and keeps no
  record of it: each call hands the pointer it is given to the engine, once, and a
  repeated call on the same handle is an ordinary call that hands it over again.
\<close>

theorem handles_not_consumed:
  "fst (env_close (traced E) env (snd (env_close (traced E) env (s, tr)))) = Inr ()
   \<and> snd (snd (env_close (traced E) env (snd (env_close (traced E) env (s, tr)))))
       = tr @ [Call_mdb_env_close env, Call_mdb_env_close env]
   \<and> snd (snd (txn_commit (traced E) txn (snd (txn_commit (traced E) txn (s, tr)))))
       = tr @ [Call_mdb_txn_commit txn, Call_mdb_txn_commit txn]
   \<and> fst (txn_abort (traced E) txn (snd (txn_commit (traced E) txn (s, tr)))) = Inr ()
   \<and> snd (snd (txn_abort (traced E) txn (snd (txn_commit (traced E) txn (s, tr)))))
       = tr @ [Call_mdb_txn_commit txn, Call_mdb_txn_abort txn]
   \<and> fst (txn_abort (traced E) txn (snd (txn_abort (traced E) txn (s, tr)))) = Inr ()
   \<and> snd (snd (txn_abort (traced E) txn (snd (txn_abort (traced E) txn (s, tr)))))
       = tr @ [Call_mdb_txn_abort txn, Call_mdb_txn_abort txn]"
  by (simp add: env_close_def txn_abort_def txn_commit_def traced_def logged_apply
      logged_void_apply split: prod.split)

text \<open>
  The claim itself fails: with the handle 1 closed twice in a row, the second call is
  accepted, returns normally and reaches the engine with the same handle; and the
  transaction handle 7 is passed to the engine again after its commit has succeeded.
\<close>

theorem double_close_counterexample:
  "fst (env_close (traced stub_engine) 1 (snd (env_close (traced stub_engine) 1 (0, []))))
     = Inr ()
   \<and> snd (env_close (traced stub_engine) 1 (snd (env_close (traced stub_engine) 1 (0, []))))
     = (2, [Call_mdb_env_close 1, Call_mdb_env_close 1])
   \<and> fst (txn_commit (traced stub_engine) 7 (0, [])) = Inr ()
   \<and> snd (txn_abort (traced stub_engine) 7 (snd (txn_commit (traced stub_engine) 7 (0, []))))
     = (2, [Call_mdb_txn_commit 7, Call_mdb_txn_abort 7])"
  by (simp add: env_close_def txn_abort_def txn_commit_def traced_def logged_apply
      logged_void_apply stub_engine_def stub_status_def)

end
